theory Spec2Isabelle
  imports Complex_Main "HOL-Library.Log_Nat"
begin

section \<open>Python string primitives\<close>

text \<open>
  A Python \<open>str\<close> is modelled as a \<open>string\<close>; every \<open>char\<close> stands for one code
  point (the model covers the code points below 256), so \<open>length\<close>, \<open>take\<close> and
  \<open>drop\<close> count what \<open>len\<close> and slicing count.
\<close>

fun startswith :: "string \<Rightarrow> string \<Rightarrow> bool" where
  "startswith s [] = True"
| "startswith [] (p # ps) = False"
| "startswith (c # cs) (p # ps) = (c = p \<and> startswith cs ps)"

text \<open>\<open>str_in sub s\<close> is Python's \<open>sub in s\<close>.\<close>

fun str_in :: "string \<Rightarrow> string \<Rightarrow> bool" where
  "str_in sub [] = (sub = [])"
| "str_in sub (c # cs) = (startswith (c # cs) sub \<or> str_in sub cs)"

text \<open>
  \<open>str_replace old new s\<close> is \<open>s.replace(old, new)\<close>: the occurrences of \<open>old\<close> are
  found from the left and do not overlap; an empty \<open>old\<close> matches before every
  character and at the end.
\<close>

function str_replace :: "string \<Rightarrow> string \<Rightarrow> string \<Rightarrow> string" where
  "str_replace old new s =
     (if old = [] then new @ concat (map (\<lambda>c. c # new) s)
      else if s = [] then []
      else if startswith s old then new @ str_replace old new (drop (length old) s)
      else hd s # str_replace old new (tl s))"
  by pat_completeness auto
termination
  by (relation "measure (\<lambda>(old, new, s). length s)") auto

declare str_replace.simps [simp del]

text \<open>\<open>strip chars s\<close> is \<open>s.strip(chars)\<close>.\<close>

definition strip :: "string \<Rightarrow> string \<Rightarrow> string" where
  "strip chars s =
     rev (dropWhile (\<lambda>c. c \<in> set chars) (rev (dropWhile (\<lambda>c. c \<in> set chars) s)))"

definition ascii_letters :: string where
  "ascii_letters = ''abcdefghijklmnopqrstuvwxyzABCDEFGHIJKLMNOPQRSTUVWXYZ''"

definition digits :: string where
  "digits = ''0123456789''"

text \<open>\<open>os.path.basename\<close> of \<open>posixpath\<close>: what follows the last slash.\<close>

definition basename :: "string \<Rightarrow> string" where
  "basename p = rev (takeWhile (\<lambda>c. c \<noteq> CHR ''/'') (rev p))"

section \<open>SecurityUtils\<close>

definition valid_chars :: string where
  "valid_chars = ''-_.() '' @ ascii_letters @ digits"

definition sanitize_filename :: "string \<Rightarrow> string" where
  "sanitize_filename filename =
     (if filename = [] then ''video''
      else
        let filename = str_replace [CHR 0x5C] []
                         (str_replace ''/'' [] (str_replace ''..'' [] filename));
            sanitized = map (\<lambda>c. if c \<in> set valid_chars then c else CHR ''_'') filename;
            sanitized = strip ''. '' sanitized;
            sanitized = basename sanitized;
            sanitized = (if length sanitized > 100 then take 100 sanitized else sanitized)
        in if sanitized \<noteq> [] then sanitized else ''video'')"

text \<open>
  \<open>os.path.abspath\<close> and \<open>os.path.realpath\<close> read the working directory and the
  links of the file system: they are functions of the environment.
\<close>

record filesystem =
  abspath :: "string \<Rightarrow> string"
  realpath :: "string \<Rightarrow> string"

definition sanitize_path :: "filesystem \<Rightarrow> string \<Rightarrow> string" where
  "sanitize_path fs filepath =
     (let abs_path = abspath fs filepath;
          real_path = realpath fs abs_path
      in real_path)"

subsection \<open>\<open>urlparse\<close>\<close>

text \<open>
  \<open>urllib.parse.urlparse\<close> belongs to the standard library. Its \<open>scheme\<close> and
  \<open>netloc\<close> are computed here as CPython's \<open>urlsplit\<close> computes them: leading
  control characters and spaces are stripped, tab, carriage return and line feed are
  removed, a scheme is a letter followed by scheme characters up to the first colon,
  and the netloc follows \<open>//\<close> up to the first of \<open>/\<close>, \<open>?\<close> and \<open>#\<close>.
  \<open>None\<close> is the \<open>ValueError\<close> that \<open>urlsplit\<close> raises on the square brackets of the
  netloc: always for a bracket without its partner, and for a netloc with both brackets
  as the version of the library decides (from CPython 3.11.4 on the bracketed host has
  to be an IPv6 or IPvFuture address, earlier versions accept every host). That decision
  is the parameter \<open>accepts_bracketed\<close>, a predicate on the netloc.
\<close>

definition lower_char :: "char \<Rightarrow> char" where
  "lower_char c =
     (let n = (of_char c :: nat) in if 65 \<le> n \<and> n \<le> 90 then char_of (n + 32) else c)"

text \<open>\<open>str.lower\<close>, on the ASCII letters.\<close>

definition lower :: "string \<Rightarrow> string" where
  "lower s = map lower_char s"

definition scheme_chars :: string where
  "scheme_chars = ascii_letters @ digits @ ''+-.''"

definition split_scheme :: "string \<Rightarrow> string \<times> string" where
  "split_scheme u =
     (let head = takeWhile (\<lambda>c. c \<noteq> CHR '':'') u in
      if length head < length u \<and> head \<noteq> [] \<and> hd u \<in> set ascii_letters
         \<and> list_all (\<lambda>c. c \<in> set scheme_chars) head
      then (lower head, drop (Suc (length head)) u)
      else ([], u))"

definition urlparse :: "(string \<Rightarrow> bool) \<Rightarrow> string \<Rightarrow> (string \<times> string) option" where
  "urlparse accepts_bracketed u0 =
     (let u1 = dropWhile (\<lambda>c. (of_char c :: nat) \<le> 32) u0;
          u2 = filter (\<lambda>c. (of_char c :: nat) \<notin> {9, 10, 13}) u1;
          (scheme, rest) = split_scheme u2;
          netloc = (if take 2 rest = ''//''
                    then takeWhile (\<lambda>c. c \<notin> set ''/?#'') (drop 2 rest) else [])
      in if (CHR ''['' \<in> set netloc) \<noteq> (CHR '']'' \<in> set netloc) then None
         else if CHR ''['' \<in> set netloc \<and> \<not> accepts_bracketed netloc then None
         else Some (scheme, netloc))"

definition is_valid_url :: "(string \<Rightarrow> bool) \<Rightarrow> string \<Rightarrow> bool" where
  "is_valid_url accepts_bracketed u =
     (case urlparse accepts_bracketed u of
        None \<Rightarrow> False
      | Some (scheme, netloc) \<Rightarrow>
          if scheme \<notin> set [''http'', ''https''] then False
          else if netloc = [] then False
          else if str_in ''..'' u \<or> count_list u (CHR ''/'') > 10 then False
          else True)"

subsection \<open>Floating point\<close>

text \<open>
  Python's \<open>float\<close> is the IEEE 754 binary64 format. \<open>fl x\<close> is the double nearest to
  the rational \<open>x\<close>, ties going to the even significand (53 bits); overflow and
  subnormal numbers are out of the range of the quantities below. The true division of
  two integers and the product of two floats are the exact results rounded once.
\<close>

definition pow2 :: "int \<Rightarrow> rat" where
  "pow2 e = (if 0 \<le> e then 2 ^ nat e else 1 / 2 ^ nat (- e))"

definition round_half_even :: "rat \<Rightarrow> int" where
  "round_half_even x =
     (let f = \<lfloor>x\<rfloor>; r = x - of_int f
      in if r < 1 / 2 then f else if 1 / 2 < r then f + 1
         else if even f then f else f + 1)"

text \<open>For \<open>x > 0\<close>, \<open>ilog2 x\<close> is the exponent \<open>e\<close> with \<open>2 ^ e \<le> x < 2 ^ (e + 1)\<close>.\<close>

definition ilog2 :: "rat \<Rightarrow> int" where
  "ilog2 x =
     (let (p, q) = quotient_of x; d = bitlen p - bitlen q
      in if pow2 d \<le> x then d else d - 1)"

definition fl :: "rat \<Rightarrow> rat" where
  "fl x =
     (if x = 0 then 0
      else let a = \<bar>x\<bar>; ulp = pow2 (ilog2 a - 52);
               m = of_int (round_half_even (a / ulp)) * ulp
           in if x < 0 then - m else m)"

text \<open>\<open>a / b\<close> on two Python integers, \<open>b\<close> not zero.\<close>

definition py_truediv :: "int \<Rightarrow> int \<Rightarrow> rat" where
  "py_truediv a b = fl (of_int a / of_int b)"

text \<open>\<open>x * y\<close> on two floats.\<close>

definition py_float_mul :: "rat \<Rightarrow> rat \<Rightarrow> rat" where
  "py_float_mul x y = fl (x * y)"

text \<open>\<open>int(x)\<close> on a float truncates toward zero.\<close>

definition py_int :: "rat \<Rightarrow> int" where
  "py_int x = (if 0 \<le> x then \<lfloor>x\<rfloor> else \<lceil>x\<rceil>)"

subsection \<open>\<open>check_disk_space\<close>\<close>

text \<open>
  \<open>shutil.disk_usage\<close> returns the three byte counts of the file system that holds the
  path, or raises (\<open>None\<close>).
\<close>

record usage =
  total_bytes :: int
  used_bytes :: int
  free_bytes :: int

definition check_disk_space :: "(string \<Rightarrow> usage option) \<Rightarrow> string \<Rightarrow> int \<Rightarrow> bool \<times> rat" where
  "check_disk_space disk_usage path required_mb =
     (case disk_usage path of
        Some stat \<Rightarrow>
          (let free_mb = py_truediv (free_bytes stat) (1024 * 1024)
           in (free_mb > of_int required_mb, free_mb))
      | None \<Rightarrow> (True, 0))"

section \<open>VideoRecord\<close>

text \<open>
  The dictionary the collectors build and the orchestrator reads, with its keys
  \<open>id\<close>, \<open>title\<close>, \<open>url\<close>, \<open>thumbnail\<close>, \<open>duration\<close>, \<open>view_count\<close> and
  \<open>like_count\<close>.
\<close>

record video =
  v_id :: string
  v_title :: string
  v_url :: string
  v_thumbnail :: string
  v_duration :: int
  v_view_count :: int
  v_like_count :: int

section \<open>DownloadThread\<close>

text \<open>
  What the thread does is observed as the list of its events: the signals \<open>finished\<close> and
  \<open>status_update\<close> it emits, its calls of \<open>ydl.download\<close> (with the URL and the output
  template) and its calls of \<open>time.sleep\<close> that return. The texts of the messages are kept as
  constructors that hold the values formatted into them. The \<open>progress\<close> signal comes out
  of \<open>progress_hook\<close>, which the extractor calls during a transfer; it is part of the
  transfer and is left out of the list.
\<close>

datatype message = Already_exists string | Downloaded string | Failed string

datatype status = Downloading nat nat string | Complete nat nat

datatype event =
    Finished bool message string
  | Status_update status
  | Download_call string string
  | Sleep int

text \<open>
  The cancellation flag of a worker thread. \<open>stop\<close> is the only writer of
  \<open>_is_running\<close> after \<open>__init__\<close> has set it, so the flag is true up to some read and
  false from then on. The reads of a run are numbered in the order in which they happen;
  \<open>stop_at = Some c\<close> says that read \<open>c\<close> is the first to find the flag false, and
  \<open>None\<close> that \<open>stop\<close> is not called before the run ends.
\<close>

record thread_flag =
  stop_at :: "nat option"

definition is_running :: "'a thread_flag_scheme \<Rightarrow> nat \<Rightarrow> bool" where
  "is_running w c = (case stop_at w of None \<Rightarrow> True | Some s \<Rightarrow> c < s)"

text \<open>
  The environment of one run of \<open>DownloadThread\<close>. The read of the flag at the top of the
  loop for item \<open>idx\<close> (counted from 1) is read \<open>idx\<close>, and the read after the loop is
  read \<open>len(videos) + 1\<close>.
  \<open>listdir idx path\<close> is what \<open>os.listdir(path)\<close> returns while item \<open>idx\<close> is
  processed (\<open>None\<close>: it raises), and \<open>download idx url outtmpl\<close> tells whether
  \<open>ydl.download([url])\<close> returns for item \<open>idx\<close> (\<open>False\<close>: it raises, the abort
  raised by \<open>progress_hook\<close> on a cancelled run included).
\<close>

record world = thread_flag +
  fs :: filesystem
  listdir :: "nat \<Rightarrow> string \<Rightarrow> string list option"
  download :: "nat \<Rightarrow> string \<Rightarrow> string \<Rightarrow> bool"

record download_thread =
  videos :: "video list"
  save_path :: string
  filename_format :: int
  rate_limit_delay :: int

definition is_already_downloaded :: "world \<Rightarrow> nat \<Rightarrow> string \<Rightarrow> string \<Rightarrow> bool" where
  "is_already_downloaded w idx video_id path =
     (case listdir w idx path of
        Some names \<Rightarrow> list_ex (\<lambda>filename. str_in video_id filename) names
      | None \<Rightarrow> False)"

text \<open>\<open>str(n)\<close> and the format \<open>{n:02d}\<close> of a natural number.\<close>

fun decimal :: "nat \<Rightarrow> string" where
  "decimal n = (if n < 10 then [digits ! n] else decimal (n div 10) @ [digits ! (n mod 10)])"

declare decimal.simps [simp del]

definition format_02d :: "nat \<Rightarrow> string" where
  "format_02d n = (if n < 10 then CHR ''0'' # decimal n else decimal n)"

text \<open>\<open>os.path.join\<close> and \<open>os.path.dirname\<close> of \<open>posixpath\<close>, on two components.\<close>

definition path_join :: "string \<Rightarrow> string \<Rightarrow> string" where
  "path_join a b =
     (if startswith b ''/'' then b
      else if a = [] \<or> last a = CHR ''/'' then a @ b
      else a @ ''/'' @ b)"

definition dirname :: "string \<Rightarrow> string" where
  "dirname p =
     (let head = rev (dropWhile (\<lambda>c. c \<noteq> CHR ''/'') (rev p))
      in if head \<noteq> [] \<and> \<not> list_all (\<lambda>c. c = CHR ''/'') head
         then rev (dropWhile (\<lambda>c. c = CHR ''/'') (rev head)) else head)"

definition final_filename :: "int \<Rightarrow> nat \<Rightarrow> video \<Rightarrow> string" where
  "final_filename fmt idx video =
     (let clean_title = sanitize_filename (v_title video);
          name =
            (if fmt = 0 then format_02d idx @ ''_'' @ clean_title
             else if fmt = 1 then take 30 (sanitize_filename (v_id video))
             else if fmt = 2 then
               format_02d idx @ ''_'' @ clean_title @ ''_''
                 @ take 10 (sanitize_filename (v_id video))
             else clean_title)
      in sanitize_filename name)"

definition output_template :: "world \<Rightarrow> download_thread \<Rightarrow> nat \<Rightarrow> video \<Rightarrow> string" where
  "output_template w t idx video =
     sanitize_path (fs w)
       (path_join (save_path t) (final_filename (filename_format t) idx video @ ''.%(ext)s''))"

text \<open>
  The state of the loop: the counters and, for every item started so far, the events of
  that item.
\<close>

record loop_state =
  success_count :: nat
  failed_count :: nat
  trace :: "event list list"

text \<open>
  \<open>time.sleep(secs)\<close> on an integer: CPython converts the seconds to nanoseconds in a
  signed 64-bit integer. \<open>time_sleep secs\<close> tells whether the call returns; it raises
  \<open>ValueError\<close> for a negative number and \<open>OverflowError\<close> when the nanoseconds do not
  fit, that is for more than 9223372036 seconds.
\<close>

definition time_sleep :: "int \<Rightarrow> bool" where
  "time_sleep secs = (0 \<le> secs \<and> secs * 1000000000 \<le> 9223372036854775807)"

text \<open>
  The body of the loop below the check of the flag, for the item \<open>idx\<close>. The pacing
  sleep is inside the \<open>try\<close> block, after the success of the item has been counted and
  signalled: when \<open>time.sleep\<close> raises, the handler counts a failure and signals it for
  the same item.
\<close>

definition process_item :: "world \<Rightarrow> download_thread \<Rightarrow> nat \<Rightarrow> video \<Rightarrow> loop_state \<Rightarrow> loop_state" where
  "process_item w t idx video s =
     (let total = length (videos t);
          video_id = v_id video; title = v_title video; url = v_url video
      in
        if is_already_downloaded w idx video_id (save_path t) then
          s\<lparr>success_count := success_count s + 1,
            trace := trace s @ [[Finished True (Already_exists (take 50 title)) video_id]]\<rparr>
        else
          let outtmpl = output_template w t idx video;
              started = [Status_update (Downloading idx total (take 50 title)),
                         Download_call url outtmpl]
          in
            if download w idx url outtmpl then
              let downloaded = started @ [Finished True (Downloaded (take 50 title)) video_id]
              in
                if idx < total \<and> rate_limit_delay t > 0 then
                  if time_sleep (rate_limit_delay t) then
                    s\<lparr>success_count := success_count s + 1,
                      trace := trace s @ [downloaded @ [Sleep (rate_limit_delay t)]]\<rparr>
                  else
                    s\<lparr>success_count := success_count s + 1,
                      failed_count := failed_count s + 1,
                      trace := trace s @
                        [downloaded @ [Finished False (Failed (take 50 title)) video_id]]\<rparr>
                else
                  s\<lparr>success_count := success_count s + 1,
                    trace := trace s @ [downloaded]\<rparr>
            else
              s\<lparr>failed_count := failed_count s + 1,
                trace := trace s @
                  [started @ [Finished False (Failed (take 50 title)) video_id]]\<rparr>)"

fun run_loop :: "world \<Rightarrow> download_thread \<Rightarrow> nat \<Rightarrow> video list \<Rightarrow> loop_state \<Rightarrow> loop_state" where
  "run_loop w t idx [] s = s"
| "run_loop w t idx (video # rest) s =
     (if \<not> is_running w idx then s
      else run_loop w t (Suc idx) rest (process_item w t idx video s))"

definition run_state :: "world \<Rightarrow> download_thread \<Rightarrow> loop_state" where
  "run_state w t =
     run_loop w t 1 (videos t) \<lparr>success_count = 0, failed_count = 0, trace = []\<rparr>"

text \<open>The events of the items, one list for each item started.\<close>

definition run_items :: "world \<Rightarrow> download_thread \<Rightarrow> event list list" where
  "run_items w t = trace (run_state w t)"

text \<open>
  \<open>DownloadThread.run\<close>. Every statement of the body that can raise is inside the inner
  \<open>try\<close>, so the outer handler is never entered.
\<close>

definition run :: "world \<Rightarrow> download_thread \<Rightarrow> event list" where
  "run w t =
     (let s = run_state w t
      in concat (trace s) @
         (if is_running w (Suc (length (videos t)))
          then [Status_update (Complete (success_count s) (failed_count s))] else []))"

text \<open>The outcomes among the events: success flag and video id of every \<open>finished\<close> signal.\<close>

fun outcomes :: "event list \<Rightarrow> (bool \<times> string) list" where
  "outcomes [] = []"
| "outcomes (Finished ok m i # es) = (ok, i) # outcomes es"
| "outcomes (e # es) = outcomes es"

fun summaries :: "event list \<Rightarrow> (nat \<times> nat) list" where
  "summaries [] = []"
| "summaries (Status_update (Complete sc fc) # es) = (sc, fc) # summaries es"
| "summaries (e # es) = summaries es"

fun downloads :: "event list \<Rightarrow> (string \<times> string) list" where
  "downloads [] = []"
| "downloads (Download_call u p # es) = (u, p) # downloads es"
| "downloads (e # es) = downloads es"

fun sleeps :: "event list \<Rightarrow> int list" where
  "sleeps [] = []"
| "sleeps (Sleep d # es) = d # sleeps es"
| "sleeps (e # es) = sleeps es"


text \<open>
  The events of one item alone, and the items that a run reaches before the flag is
  found false.
\<close>

definition item_events :: "world \<Rightarrow> download_thread \<Rightarrow> nat \<Rightarrow> video \<Rightarrow> event list" where
  "item_events w t idx video =
     concat (trace (process_item w t idx video
                      \<lparr>success_count = 0, failed_count = 0, trace = []\<rparr>))"

definition reached :: "'a thread_flag_scheme \<Rightarrow> nat \<Rightarrow> 'b list \<Rightarrow> (nat \<times> 'b) list" where
  "reached w idx vs = takeWhile (\<lambda>(i, v). is_running w i) (enumerate idx vs)"

subsection \<open>Example runs\<close>

definition mk_video :: "string \<Rightarrow> string \<Rightarrow> video" where
  "mk_video i t =
     \<lparr>v_id = i, v_title = t, v_url = ''https://example.com/watch/'' @ i, v_thumbnail = [],
      v_duration = 0, v_view_count = 0, v_like_count = 0\<rparr>"

definition plain_fs :: filesystem where
  "plain_fs = \<lparr>abspath = (\<lambda>p. p), realpath = (\<lambda>p. p)\<rparr>"



text \<open>
  A save directory that holds \<open>07_MyClip_ab12.mp4\<close>; the first record has the id
  \<open>ab12\<close>, the transfer of the second raises, the third is downloaded.
\<close>

definition dedup_world :: world where
  "dedup_world =
     \<lparr>stop_at = None, fs = plain_fs, listdir = (\<lambda>idx p. Some [''07_MyClip_ab12.mp4'']),
      download = (\<lambda>idx u p. idx \<noteq> 2)\<rparr>"

definition dedup_thread :: download_thread where
  "dedup_thread =
     \<lparr>videos = [mk_video ''ab12'' ''MyClip'', mk_video ''x2'' ''Second'',
                mk_video ''x3'' ''Third''],
      save_path = ''/dl'', filename_format = 0, rate_limit_delay = 2\<rparr>"

text \<open>A save directory that cannot be listed.\<close>

definition unlisted_world :: world where
  "unlisted_world =
     \<lparr>stop_at = None, fs = plain_fs, listdir = (\<lambda>idx p. None),
      download = (\<lambda>idx u p. True)\<rparr>"

text \<open>
  A save directory in which the name \<open>01_clip.%(ext)s\<close> is a symbolic link to a file of
  another directory.
\<close>

definition linked_world :: world where
  "linked_world =
     \<lparr>stop_at = None,
      fs = \<lparr>abspath = (\<lambda>p. p),
            realpath = (\<lambda>p. if p = ''/home/u/Downloads/01_clip.%(ext)s''
                             then ''/etc/cron.d/clip.%(ext)s'' else p)\<rparr>,
      listdir = (\<lambda>idx p. Some [''01_clip.%(ext)s'']),
      download = (\<lambda>idx u p. True)\<rparr>"

definition linked_thread :: download_thread where
  "linked_thread =
     \<lparr>videos = [mk_video ''x1'' ''clip''],
      save_path = ''/home/u/Downloads'', filename_format = 0, rate_limit_delay = 2\<rparr>"

text \<open>Two records that are downloaded, with a delay that \<open>time.sleep\<close> does not take.\<close>

definition overflow_thread :: download_thread where
  "overflow_thread =
     \<lparr>videos = [mk_video ''v1'' ''One'', mk_video ''v2'' ''Two''],
      save_path = ''/dl'', filename_format = 0, rate_limit_delay = 9223372037\<rparr>"


section \<open>The collectors\<close>

text \<open>
  A dictionary returned by the extractor: its string values and its numeric values, by
  key. \<open>get_str d k dflt\<close> is \<open>d.get(k, dflt)\<close>: the default stands in for a missing
  key only, an empty value is returned as it is.
\<close>

record info_dict =
  strs :: "string \<rightharpoonup> string"
  nums :: "string \<rightharpoonup> int"

definition get_str :: "info_dict \<Rightarrow> string \<Rightarrow> string \<Rightarrow> string" where
  "get_str d k dflt = (case strs d k of Some v \<Rightarrow> v | None \<Rightarrow> dflt)"

definition get_num :: "info_dict \<Rightarrow> string \<Rightarrow> int \<Rightarrow> int" where
  "get_num d k dflt = (case nums d k of Some v \<Rightarrow> v | None \<Rightarrow> dflt)"

text \<open>A call of the extractor raises with a message or returns.\<close>

datatype 'a result = Raised string | Returned 'a

subsection \<open>\<open>VideoInfoThread\<close>\<close>

text \<open>
  \<open>extract_info idx url\<close> is the outcome of \<open>ydl.extract_info(url, download=False)\<close>
  for the URL at position \<open>idx\<close>; \<open>Returned None\<close> is a result that is not truthy.
  The read of the flag at the top of the loop for the URL \<open>idx\<close> (counted from 1) is
  read \<open>idx\<close>, the read after the loop is read \<open>len(urls) + 1\<close>.
  \<open>accepts_bracketed\<close> is the decision of the library in use on a netloc with square
  brackets.
\<close>

record info_world = thread_flag +
  accepts_bracketed :: "string \<Rightarrow> bool"
  extract_info :: "nat \<Rightarrow> string \<Rightarrow> info_dict option result"

datatype info_status = Invalid_URL nat | Extracting nat nat | Extract_failed string

datatype info_message = Loaded nat | No_valid_URLs

datatype info_event =
    Info_status info_status
  | Info_progress int
  | Info_finished bool info_message "video list"

text \<open>The dictionary built from the extractor's result for the URL \<open>idx\<close>.\<close>

definition video_info :: "nat \<Rightarrow> string \<Rightarrow> info_dict \<Rightarrow> video" where
  "video_info idx url info =
     (let title = get_str info ''title'' [];
          description = get_str info ''description'' [];
          title =
            (if str_in ''instagram.com'' url \<and> description \<noteq> [] \<and> description \<noteq> title
             then let first_line = takeWhile (\<lambda>c. c \<noteq> CHR 0x0A) description
                  in if length first_line > 100 then take 100 first_line else first_line
             else title);
          title =
            (if title = [] \<or> title = ''Untitled''
             then let uploader = get_str info ''uploader'' (get_str info ''channel'' ''unknown'');
                      upload_date = get_str info ''upload_date'' []
                  in if upload_date \<noteq> [] then uploader @ ''_'' @ upload_date
                     else uploader @ ''_video''
             else title);
          info_id = get_str info ''id'' []
      in \<lparr>v_id = (if info_id \<noteq> [] then info_id
                  else get_str info ''display_id'' (''video_'' @ decimal idx)),
          v_title = title,
          v_url = url,
          v_thumbnail = get_str info ''thumbnail'' [],
          v_duration = get_num info ''duration'' 0,
          v_view_count = get_num info ''view_count'' 0,
          v_like_count = get_num info ''like_count'' 0\<rparr>)"

text \<open>\<open>int((idx / total) * 90)\<close>, computed in floating point as Python computes it.\<close>

definition collection_progress :: "nat \<Rightarrow> nat \<Rightarrow> int" where
  "collection_progress idx total' =
     py_int (py_float_mul (py_truediv (int idx) (int total')) 90)"

record info_state =
  collected :: "video list"
  emitted :: "info_event list"

definition video_info_item :: "info_world \<Rightarrow> nat \<Rightarrow> nat \<Rightarrow> string \<Rightarrow> info_state \<Rightarrow> info_state" where
  "video_info_item w total' idx url s =
     (if \<not> is_valid_url (accepts_bracketed w) url then
        s\<lparr>emitted := emitted s @ [Info_status (Invalid_URL idx)]\<rparr>
      else
        let s = s\<lparr>emitted := emitted s @
                    [Info_status (Extracting idx total'),
                     Info_progress (collection_progress idx total')]\<rparr>
        in case extract_info w idx url of
             Raised e \<Rightarrow> s\<lparr>emitted := emitted s @ [Info_status (Extract_failed (take 50 e))]\<rparr>
           | Returned None \<Rightarrow> s
           | Returned (Some info) \<Rightarrow> s\<lparr>collected := collected s @ [video_info idx url info]\<rparr>)"

fun video_info_loop :: "info_world \<Rightarrow> nat \<Rightarrow> nat \<Rightarrow> string list \<Rightarrow> info_state \<Rightarrow> info_state" where
  "video_info_loop w total' idx [] s = s"
| "video_info_loop w total' idx (url # rest) s =
     (if \<not> is_running w idx then s
      else video_info_loop w total' (Suc idx) rest (video_info_item w total' idx url s))"

text \<open>\<open>VideoInfoThread.run\<close>.\<close>

definition video_info_run :: "info_world \<Rightarrow> string list \<Rightarrow> info_event list" where
  "video_info_run w urls =
     (let total = length urls;
          s = video_info_loop w total 1 urls \<lparr>collected = [], emitted = []\<rparr>
      in emitted s @ [Info_progress 100] @
         (if collected s \<noteq> [] \<and> is_running w (Suc total)
          then [Info_finished True (Loaded (length (collected s))) (collected s)]
          else [Info_finished False No_valid_URLs []]))"

fun progresses :: "info_event list \<Rightarrow> int list" where
  "progresses [] = []"
| "progresses (Info_progress n # es) = n # progresses es"
| "progresses (e # es) = progresses es"

text \<open>The progress value as the specification words it: \<open>round(index / total * 90)\<close>.\<close>

definition spec_progress :: "nat \<Rightarrow> nat \<Rightarrow> int" where
  "spec_progress idx total' = round (of_nat idx / of_nat total' * (90 :: rat))"

text \<open>Seven valid URLs, each resolved by the extractor.\<close>

definition seven_urls :: "string list" where
  "seven_urls = map (\<lambda>n. ''https://example.com/watch/'' @ decimal n) [1..<8]"

definition info_world_ok :: info_world where
  "info_world_ok =
     \<lparr>stop_at = None, accepts_bracketed = (\<lambda>netloc. False),
      extract_info = (\<lambda>idx u. Returned (Some \<lparr>strs = [''id'' \<mapsto> decimal idx, ''title'' \<mapsto> ''Clip''],
                                               nums = Map.empty\<rparr>))\<rparr>"

subsection \<open>\<open>ProfileFetchThread\<close>\<close>

datatype platform = TikTok | YouTube | Instagram | Facebook | Unknown

definition detect_platform :: "string \<Rightarrow> platform" where
  "detect_platform url =
     (let url_lower = lower url in
      if str_in ''tiktok.com'' url_lower then TikTok
      else if str_in ''youtube.com'' url_lower \<or> str_in ''youtu.be'' url_lower then YouTube
      else if str_in ''instagram.com'' url_lower then Instagram
      else if str_in ''facebook.com'' url_lower \<or> str_in ''fb.com'' url_lower then Facebook
      else Unknown)"

text \<open>
  A post as \<open>instaloader\<close> yields it, and the loop of
  \<open>scrape_instagram_with_instaloader\<close> over the posts of the profile. The read of the
  flag in iteration \<open>count + 1\<close> of the loop is read \<open>count + 1\<close>.
\<close>

record post =
  shortcode :: string
  is_video :: bool
  caption :: "string option"
  post_url :: string
  video_duration :: int
  video_view_count :: int
  likes :: int

definition post_video :: "post \<Rightarrow> video" where
  "post_video p =
     \<lparr>v_id = shortcode p,
      v_title = (case caption p of
                   Some c \<Rightarrow> if c \<noteq> [] then take 100 c else ''Untitled''
                 | None \<Rightarrow> ''Untitled''),
      v_url = ''https://www.instagram.com/p/'' @ shortcode p @ ''/'',
      v_thumbnail = post_url p,
      v_duration = video_duration p,
      v_view_count = video_view_count p,
      v_like_count = likes p\<rparr>"

fun scrape_instagram_with_instaloader ::
  "thread_flag \<Rightarrow> nat \<Rightarrow> nat \<Rightarrow> post list \<Rightarrow> video list \<Rightarrow> video list" where
  "scrape_instagram_with_instaloader w max_videos count [] vs = vs"
| "scrape_instagram_with_instaloader w max_videos count (p # ps) vs =
     (if \<not> is_running w (Suc count) then vs
      else if count \<ge> max_videos then vs
      else scrape_instagram_with_instaloader w max_videos (Suc count) ps
             (if is_video p then vs @ [post_video p] else vs))"

text \<open>
  The flattened listing of the other platforms: the dictionary built from entry \<open>idx\<close>
  (counted from 0), the loop over the entries (an entry that is not truthy is \<open>None\<close>),
  and the \<open>finished\<close> signal that \<open>run\<close> emits for the entries of a profile that is
  not an Instagram profile. The read of the flag at the top of the
  loop for entry \<open>idx\<close> is read \<open>idx + 1\<close>, the read after the loop is read
  \<open>len(entries) + 1\<close>.
\<close>

definition entry_video :: "platform \<Rightarrow> nat \<Rightarrow> info_dict \<Rightarrow> video" where
  "entry_video pf idx entry =
     (let video_id = get_str entry ''id'' (''video_'' @ decimal idx);
          title = get_str entry ''title'' ''Untitled'';
          video_url = (case strs entry ''url'' of
                         Some u \<Rightarrow> if u \<noteq> [] then u else get_str entry ''webpage_url'' []
                       | None \<Rightarrow> get_str entry ''webpage_url'' []);
          video_url =
            (if \<not> startswith video_url ''http'' then
               (if pf = TikTok then ''https://www.tiktok.com/@user/video/'' @ video_id
                else if pf = YouTube then ''https://www.youtube.com/watch?v='' @ video_id
                else video_url)
             else video_url)
      in \<lparr>v_id = video_id,
          v_title = take 100 title,
          v_url = video_url,
          v_thumbnail = get_str entry ''thumbnail'' [],
          v_duration = get_num entry ''duration'' 0,
          v_view_count = get_num entry ''view_count'' 0,
          v_like_count = get_num entry ''like_count'' 0\<rparr>)"

fun collect_entries ::
  "thread_flag \<Rightarrow> platform \<Rightarrow> nat \<Rightarrow> info_dict option list \<Rightarrow> video list \<Rightarrow> video list" where
  "collect_entries w pf idx [] vs = vs"
| "collect_entries w pf idx (entry # rest) vs =
     (if \<not> is_running w (Suc idx) then vs
      else collect_entries w pf (Suc idx) rest
             (case entry of Some e \<Rightarrow> vs @ [entry_video pf idx e] | None \<Rightarrow> vs))"

datatype profile_message = Found nat platform | No_videos_in platform | No_videos_in_profile

definition fetch_listing ::
  "thread_flag \<Rightarrow> string \<Rightarrow> info_dict option list \<Rightarrow> bool \<times> profile_message \<times> video list" where
  "fetch_listing w url entries =
     (let pf = detect_platform url in
      if entries = [] then (False, No_videos_in pf, [])
      else
        let vs = collect_entries w pf 0 entries []
        in if vs \<noteq> [] \<and> is_running w (Suc (length entries))
           then (True, Found (length vs) pf, vs)
           else (False, No_videos_in_profile, []))"

text \<open>
  A listing of a Facebook page: the first entry has neither \<open>url\<close> nor \<open>webpage_url\<close>;
  the second has an empty \<open>id\<close> and an empty \<open>title\<close>.
\<close>

definition facebook_entries :: "info_dict option list" where
  "facebook_entries =
     [Some \<lparr>strs = [''id'' \<mapsto> ''123'', ''title'' \<mapsto> ''Clip''], nums = Map.empty\<rparr>,
      Some \<lparr>strs = [''id'' \<mapsto> [], ''title'' \<mapsto> [],
                    ''url'' \<mapsto> ''https://www.facebook.com/page/videos/456''],
            nums = Map.empty\<rparr>]"

text \<open>A volume with exactly 100 MiB free.\<close>

definition hundred_mib_free :: "string \<Rightarrow> usage option" where
  "hundred_mib_free path =
     Some \<lparr>total_bytes = 209715200, used_bytes = 104857600, free_bytes = 104857600\<rparr>"

text \<open>A path whose file system cannot be queried.\<close>

definition unreachable_disk :: "string \<Rightarrow> usage option" where
  "unreachable_disk path = None"

section \<open>Properties of the string primitives\<close>

lemma startswith_iff: "startswith s p \<longleftrightarrow> (\<exists>q. s = p @ q)"
  by (induction s p rule: startswith.induct) auto

lemma str_in_iff: "str_in sub s \<longleftrightarrow> (\<exists>p q. s = p @ sub @ q)"
proof (induction s)
  case Nil
  then show ?case by simp
next
  case (Cons c cs)
  show ?case
  proof
    assume "str_in sub (c # cs)"
    then consider "startswith (c # cs) sub" | "str_in sub cs" by auto
    then show "\<exists>p q. c # cs = p @ sub @ q"
    proof cases
      case 1
      then obtain q where "c # cs = sub @ q" by (auto simp: startswith_iff)
      then have "c # cs = [] @ sub @ q" by simp
      then show ?thesis by blast
    next
      case 2
      with Cons obtain p q where "cs = p @ sub @ q" by blast
      then have "c # cs = (c # p) @ sub @ q" by simp
      then show ?thesis by blast
    qed
  next
    assume "\<exists>p q. c # cs = p @ sub @ q"
    then obtain p q where pq: "c # cs = p @ sub @ q" by blast
    show "str_in sub (c # cs)"
    proof (cases p)
      case Nil
      with pq have "startswith (c # cs) sub" by (auto simp: startswith_iff)
      then show ?thesis by simp
    next
      case (Cons a p')
      with pq have "cs = p' @ sub @ q" by simp
      then have "str_in sub cs" using Cons.IH by blast
      then show ?thesis by simp
    qed
  qed
qed

section \<open>Properties of the download loop\<close>

lemma process_item_trace:
  "trace (process_item w t idx v s) = trace s @ [item_events w t idx v]"
  by (simp add: process_item_def item_events_def Let_def)




lemma run_loop_trace:
  "trace (run_loop w t idx vs s) =
     trace s @ map (\<lambda>(i, v). item_events w t i v) (reached w idx vs)"
  by (induction vs arbitrary: idx s) (simp_all add: reached_def enumerate_simps process_item_trace)



lemma reached_all: "stop_at w = None \<Longrightarrow> reached w idx vs = enumerate idx vs"
  by (simp add: reached_def is_running_def)

lemma reached_take:
  "stop_at w = Some c \<Longrightarrow> reached w idx vs = take (c - idx) (enumerate idx vs)"
proof (induction vs arbitrary: idx)
  case Nil
  then show ?case by (simp add: reached_def)
next
  case (Cons v vs)
  show ?case
  proof (cases "idx < c")
    case True
    then have "c - idx = Suc (c - Suc idx)" by simp
    with Cons True show ?thesis
      by (simp add: reached_def is_running_def enumerate_simps)
  next
    case False
    with Cons show ?thesis
      by (simp add: reached_def is_running_def enumerate_simps)
  qed
qed



lemma downloads_append: "downloads (xs @ ys) = downloads xs @ downloads ys"
  by (induction xs rule: downloads.induct) simp_all

lemma sleeps_append: "sleeps (xs @ ys) = sleeps xs @ sleeps ys"
  by (induction xs rule: sleeps.induct) simp_all





lemma run_items_eq:
  "run_items w t = map (\<lambda>(i, v). item_events w t i v) (reached w 1 (videos t))"
  by (simp add: run_items_def run_state_def run_loop_trace)


lemma reached_nth:
  assumes "i < length (reached w idx vs)"
  shows "i < length vs \<and> reached w idx vs ! i = (idx + i, vs ! i)"
proof -
  have le: "length (reached w idx vs) \<le> length (enumerate idx vs)"
    unfolding reached_def by (rule length_takeWhile_le)
  then have i: "i < length vs" using assms by simp
  have "reached w idx vs ! i = enumerate idx vs ! i"
    using assms unfolding reached_def by (rule takeWhile_nth)
  with i show ?thesis by (simp add: nth_enumerate_eq)
qed

lemma reached_length:
  assumes "i < length vs" and "is_running w (idx + i)"
  shows "i < length (reached w idx vs)"
proof (cases "stop_at w")
  case None
  with assms show ?thesis by (simp add: reached_all)
next
  case (Some c)
  with assms have "idx + i < c" by (simp add: is_running_def)
  with assms Some show ?thesis by (simp add: reached_take)
qed

lemma run_items_nth:
  assumes "i < length (run_items w t)"
  shows "i < length (videos t) \<and> run_items w t ! i = item_events w t (Suc i) (videos t ! i)"
  using assms reached_nth [of i w 1 "videos t"] by (simp add: run_items_eq)

lemma run_items_length:
  assumes "i < length (videos t)" and "is_running w (Suc i)"
  shows "i < length (run_items w t)"
  using assms reached_length [of i "videos t" w 1] by (simp add: run_items_eq)



section \<open>The claims about \<open>DownloadThread.run\<close>\<close>



text \<open>
  The bound on the delay is needed: with a delay of 9223372037 seconds \<open>time.sleep\<close>
  raises after the first item has been reported as downloaded, and the handler reports
  the same item once more, as failed.
\<close>

lemma sleep_overflow_second_outcome:
  "outcomes (run unlisted_world overflow_thread) = [(True, ''v1''), (False, ''v1''), (True, ''v2'')]
   \<and> summaries (run unlisted_world overflow_thread) = [(2, 1)]
   \<and> sleeps (run unlisted_world overflow_thread) = []"
  by code_simp

text \<open>
  Claim C3. When the id of a record occurs as a substring of a file name of the save
  directory, the run (on reaching the record) emits for it the single event
  \<open>finished(True, "Already exists: ...", id)\<close> and makes no download call for it.
\<close>

theorem duplicate_is_skipped:
  assumes "i < length (videos t)" and "is_running w (Suc i)"
    and "listdir w (Suc i) (save_path t) = Some names"
    and "filename \<in> set names" and "filename = p @ v_id (videos t ! i) @ q"
  shows "i < length (run_items w t)
         \<and> run_items w t ! i =
             [Finished True (Already_exists (take 50 (v_title (videos t ! i))))
                (v_id (videos t ! i))]
         \<and> downloads (run_items w t ! i) = []"
proof -
  have len: "i < length (run_items w t)" using assms(1,2) by (rule run_items_length)
  have "str_in (v_id (videos t ! i)) filename" using assms(5) by (auto simp: str_in_iff)
  with assms(3,4) have dup: "is_already_downloaded w (Suc i) (v_id (videos t ! i)) (save_path t)"
    by (auto simp: is_already_downloaded_def list_ex_iff)
  have "run_items w t ! i = item_events w t (Suc i) (videos t ! i)"
    using run_items_nth [OF len] by simp
  also have "\<dots> = [Finished True (Already_exists (take 50 (v_title (videos t ! i))))
                (v_id (videos t ! i))]"
    using dup by (simp add: item_events_def process_item_def)
  finally show ?thesis using len by simp
qed

theorem duplicate_is_skipped_witness:
  "0 < length (videos dedup_thread) \<and> is_running dedup_world (Suc 0)
   \<and> listdir dedup_world (Suc 0) (save_path dedup_thread) = Some [''07_MyClip_ab12.mp4'']
   \<and> ''07_MyClip_ab12.mp4'' = ''07_MyClip_'' @ v_id (videos dedup_thread ! 0) @ ''.mp4''
   \<and> run_items dedup_world dedup_thread ! 0 = [Finished True (Already_exists ''MyClip'') ''ab12'']
   \<and> downloads (run_items dedup_world dedup_thread ! 0) = []"
proof -
  have a: "0 < length (videos dedup_thread)" by (simp add: dedup_thread_def)
  have b: "is_running dedup_world (Suc 0)" by (simp add: is_running_def dedup_world_def)
  have c: "listdir dedup_world (Suc 0) (save_path dedup_thread) = Some [''07_MyClip_ab12.mp4'']"
    by (simp add: dedup_world_def)
  have d: "''07_MyClip_ab12.mp4'' \<in> set [''07_MyClip_ab12.mp4'']" by simp
  have e: "''07_MyClip_ab12.mp4'' = ''07_MyClip_'' @ v_id (videos dedup_thread ! 0) @ ''.mp4''"
    by (simp add: dedup_thread_def mk_video_def)
  have f: "take 50 (v_title (videos dedup_thread ! 0)) = ''MyClip''"
    by (simp add: dedup_thread_def mk_video_def)
  have g: "v_id (videos dedup_thread ! 0) = ''ab12''"
    by (simp add: dedup_thread_def mk_video_def)
  note r = duplicate_is_skipped [OF a b c d e, unfolded f g]
  from r a b c e show ?thesis by blast
qed








text \<open>
  Claim C1 does not hold of the code: \<open>run\<close> hands the result of \<open>sanitize_path\<close> to the
  download without comparing its parent directory with the save directory. Where the
  name of the output file is a symbolic link in the save directory, the download is
  called with a template outside of the save directory.
\<close>

theorem download_outside_save_dir:
  "run linked_world linked_thread =
     [Status_update (Downloading 1 1 ''clip''),
      Download_call ''https://example.com/watch/x1'' ''/etc/cron.d/clip.%(ext)s'',
      Finished True (Downloaded ''clip'') ''x1'',
      Status_update (Complete 1 0)]
   \<and> dirname ''/etc/cron.d/clip.%(ext)s'' = ''/etc/cron.d''
   \<and> sanitize_path (fs linked_world) (save_path linked_thread) = ''/home/u/Downloads''"
  by code_simp

section \<open>Properties of the floating-point operations\<close>

lemma pow2_powi: "pow2 e = power_int 2 e"
  unfolding pow2_def power_int_def by (simp add: inverse_eq_divide power_one_over)

lemma pow2_pos: "0 < pow2 e"
  by (simp add: pow2_powi)

lemma pow2_add: "pow2 (a + b) = pow2 a * pow2 b"
  by (simp add: pow2_powi power_int_add)

lemma pow2_mono: "a \<le> b \<Longrightarrow> pow2 a \<le> pow2 b"
  unfolding pow2_powi by (rule power_int_increasing) simp_all

lemma pow2_nat: "0 \<le> e \<Longrightarrow> pow2 e = 2 ^ nat e"
  by (simp add: pow2_def)

lemma round_half_even_of_int: "round_half_even (of_int k) = k"
  by (simp add: round_half_even_def)

lemma ilog2_le:
  assumes "0 < x"
  shows "pow2 (ilog2 x) \<le> x"
proof -
  obtain p q where pq: "quotient_of x = (p, q)" by (cases "quotient_of x")
  then have q: "0 < q" and x: "x = of_int p / of_int q"
    by (simp_all add: quotient_of_denom_pos quotient_of_div)
  from assms x q have p: "0 < p" by (simp add: zero_less_divide_iff)
  define d where "d = bitlen p - bitlen q"
  have il: "ilog2 x = (if pow2 d \<le> x then d else d - 1)"
    by (simp add: ilog2_def pq d_def Let_def)
  have bp: "(2::int) ^ nat (bitlen p - 1) \<le> p" using bitlen_bounds [OF p] by simp
  have bq: "q < 2 ^ nat (bitlen q)" using bitlen_bounds [OF q] by simp
  have bpn: "0 \<le> bitlen p - 1" using p by (simp add: bitlen_alt_def)
  have bqn: "0 \<le> bitlen q" by (rule bitlen_nonneg)
  have "(of_int (2 ^ nat (bitlen p - 1)) :: rat) \<le> of_int p"
    using bp by (simp only: of_int_le_iff)
  then have lo: "pow2 (bitlen p - 1) \<le> of_int p"
    using bpn by (simp add: pow2_nat)
  have "(of_int q :: rat) \<le> of_int (2 ^ nat (bitlen q))"
    using bq by (simp only: of_int_le_iff)
  then have hi: "of_int q \<le> pow2 (bitlen q)"
    using bqn by (simp add: pow2_nat)
  have "pow2 (d - 1) * of_int q \<le> pow2 (d - 1) * pow2 (bitlen q)"
    using hi pow2_pos [of "d - 1"] by (simp only: mult_le_cancel_left_pos)
  also have "\<dots> = pow2 (d - 1 + bitlen q)"
    by (simp only: pow2_add)
  also have "d - 1 + bitlen q = bitlen p - 1" by (simp add: d_def)
  also have "pow2 (bitlen p - 1) \<le> of_int p" by (rule lo)
  finally have "pow2 (d - 1) * of_int q \<le> of_int p" .
  then have "pow2 (d - 1) \<le> x" using q by (simp add: x pos_le_divide_eq)
  then show ?thesis by (simp add: il)
qed

lemma fl_exact:
  assumes "0 < m" and "m < 2 ^ 53"
  shows "fl (of_int m * pow2 j) = of_int m * pow2 j"
proof -
  define x where "x = of_int m * pow2 j"
  define e where "e = ilog2 x"
  have xpos: "0 < x" using assms(1) pow2_pos [of j] by (simp add: x_def)
  have "(of_int m :: rat) < of_int (2 ^ 53)" using assms(2) by (simp only: of_int_less_iff)
  then have m53: "(of_int m :: rat) < pow2 53" by (simp add: pow2_def)
  have "pow2 e \<le> x" unfolding e_def using xpos by (rule ilog2_le)
  also have "x < pow2 53 * pow2 j"
    unfolding x_def using m53 pow2_pos [of j] by (simp only: mult_less_cancel_right_pos)
  also have "\<dots> = pow2 (53 + j)" by (simp only: pow2_add)
  finally have lt: "pow2 e < pow2 (53 + j)" .
  have "e < 53 + j"
  proof (rule ccontr)
    assume "\<not> e < 53 + j"
    then have "pow2 (53 + j) \<le> pow2 e" by (intro pow2_mono) simp
    with lt show False by simp
  qed
  then have k: "0 \<le> j - e + 52" by simp
  define u where "u = pow2 (e - 52)"
  have upos: "0 < u" unfolding u_def by (rule pow2_pos)
  have "of_int m * pow2 (j - e + 52) * u = of_int m * pow2 (j - e + 52 + (e - 52))"
    unfolding u_def by (simp only: pow2_add mult.assoc)
  also have "j - e + 52 + (e - 52) = j" by simp
  finally have xu: "of_int m * pow2 (j - e + 52) * u = x" by (simp only: x_def)
  have "pow2 (j - e + 52) = of_int (2 ^ nat (j - e + 52))" using k by (simp add: pow2_nat)
  then have "of_int (m * 2 ^ nat (j - e + 52)) * u = x" using xu by simp
  then have q: "x / u = of_int (m * 2 ^ nat (j - e + 52))"
    using upos by (simp add: divide_eq_eq)
  have r: "of_int (round_half_even (x / u)) * u = x"
    unfolding q round_half_even_of_int using upos q by (simp add: divide_eq_eq)
  have "fl x = of_int (round_half_even (x / u)) * u"
    using xpos by (simp add: fl_def Let_def u_def e_def)
  with r show ?thesis by (simp add: x_def)
qed

lemma py_truediv_mib:
  assumes "0 \<le> n" and "n < 2 ^ 53"
  shows "py_truediv n (1024 * 1024) = of_int n / 1048576"
proof (cases "n = 0")
  case True
  then show ?thesis by (simp add: py_truediv_def fl_def)
next
  case False
  with assms have "0 < n" by simp
  from fl_exact [OF this assms(2), of "- 20"] show ?thesis
    by (simp add: py_truediv_def pow2_def)
qed

section \<open>The claims about \<open>SecurityUtils\<close>\<close>

text \<open>
  Every character of a sanitized name is a valid character or the underscore, so the
  name holds neither a slash nor a backslash.
\<close>

lemma set_strip: "set (strip cs s) \<subseteq> set s"
proof
  fix c assume "c \<in> set (strip cs s)"
  then have "c \<in> set (dropWhile (\<lambda>c. c \<in> set cs) (rev (dropWhile (\<lambda>c. c \<in> set cs) s)))"
    by (simp add: strip_def)
  then have "c \<in> set (rev (dropWhile (\<lambda>c. c \<in> set cs) s))" by (rule set_dropWhileD)
  then have "c \<in> set (dropWhile (\<lambda>c. c \<in> set cs) s)" by simp
  then show "c \<in> set s" by (rule set_dropWhileD)
qed

lemma set_basename: "set (basename p) \<subseteq> set p"
proof -
  have "set (takeWhile (\<lambda>c. c \<noteq> CHR ''/'') (rev p)) \<subseteq> set (rev p)"
    by (rule subsetI) (rule set_takeWhileD [THEN conjunct1])
  then show ?thesis by (simp add: basename_def)
qed

lemma sanitize_filename_chars:
  "set (sanitize_filename x) \<subseteq> set valid_chars \<union> {CHR ''_''}"
proof (cases "x = []")
  case True
  then show ?thesis
    by (simp add: sanitize_filename_def valid_chars_def ascii_letters_def digits_def)
next
  case False
  define y where "y = str_replace [CHR 0x5C] [] (str_replace ''/'' [] (str_replace ''..'' [] x))"
  define m where "m = map (\<lambda>c. if c \<in> set valid_chars then c else CHR ''_'') y"
  define b where "b = basename (strip ''. '' m)"
  have m: "set m \<subseteq> set valid_chars \<union> {CHR ''_''}" unfolding m_def by auto
  have "set b \<subseteq> set m" unfolding b_def using set_basename set_strip by (rule subset_trans)
  then have b: "set b \<subseteq> set valid_chars \<union> {CHR ''_''}" using m by (rule subset_trans)
  have "set (take 100 b) \<subseteq> set b" by (rule set_take_subset)
  then have t: "set (take 100 b) \<subseteq> set valid_chars \<union> {CHR ''_''}"
    using b by (rule subset_trans)
  have v: "set ''video'' \<subseteq> set valid_chars \<union> {CHR ''_''}"
    by (simp add: valid_chars_def ascii_letters_def digits_def)
  have "sanitize_filename x =
          (let s = (if length b > 100 then take 100 b else b) in if s \<noteq> [] then s else ''video'')"
    using False by (simp add: sanitize_filename_def Let_def b_def m_def y_def)
  then show ?thesis using b t v by (simp add: Let_def)
qed

lemma sanitize_filename_no_separator:
  "CHR ''/'' \<notin> set (sanitize_filename x) \<and> CHR 0x5C \<notin> set (sanitize_filename x)"
proof -
  have "CHR ''/'' \<notin> set valid_chars \<union> {CHR ''_''}"
    and "CHR 0x5C \<notin> set valid_chars \<union> {CHR ''_''}"
    by (simp_all add: valid_chars_def ascii_letters_def digits_def)
  with sanitize_filename_chars [of x] show ?thesis by blast
qed

text \<open>
  Claim C5 is not met by the code. \<open>sanitize_filename\<close> removes \<open>..\<close> before it
  removes the slashes, so the dots on the two sides of a slash come together after the
  removal and stay: the name \<open>a./.b\<close> becomes \<open>a..b\<close>, which contains \<open>..\<close>, and
  sanitizing \<open>a..b\<close> again gives \<open>ab\<close>.
\<close>

theorem sanitize_filename_keeps_dotdot:
  "sanitize_filename ''a./.b'' = ''a..b''
   \<and> str_in ''..'' (sanitize_filename ''a./.b'')
   \<and> sanitize_filename (sanitize_filename ''a./.b'') = ''ab''"
  by code_simp

text \<open>
  Claim C8, as the code has it. When the file system answers, the result is true exactly
  when strictly more than \<open>required_mb\<close> mebibytes are free, and the second component is
  the free space in mebibytes (for byte counts below \<open>2 ^ 53\<close>, where the floating-point
  quotient is exact). When the query fails, the result is \<open>(True, 0)\<close>.
\<close>

theorem check_disk_space_strict:
  "(disk_usage path = Some stat \<and> 0 \<le> free_bytes stat \<and> free_bytes stat < 2 ^ 53 \<longrightarrow>
      check_disk_space disk_usage path required_mb =
        (required_mb * 1048576 < free_bytes stat, of_int (free_bytes stat) / 1048576))
   \<and> (disk_usage path = None \<longrightarrow> check_disk_space disk_usage path required_mb = (True, 0))"
proof (intro conjI impI)
  assume a: "disk_usage path = Some stat \<and> 0 \<le> free_bytes stat \<and> free_bytes stat < 2 ^ 53"
  then have s: "disk_usage path = Some stat"
    and "0 \<le> free_bytes stat" and "free_bytes stat < 2 ^ 53" by blast+
  then have q: "py_truediv (free_bytes stat) (1024 * 1024) = of_int (free_bytes stat) / 1048576"
    by (intro py_truediv_mib)
  have "(of_int required_mb < (of_int (free_bytes stat) :: rat) / 1048576) =
          ((of_int (required_mb * 1048576) :: rat) < of_int (free_bytes stat))"
    by (simp add: pos_less_divide_eq)
  also have "\<dots> = (required_mb * 1048576 < free_bytes stat)"
    by (simp only: of_int_less_iff)
  finally have c: "(of_int required_mb < (of_int (free_bytes stat) :: rat) / 1048576) =
          (required_mb * 1048576 < free_bytes stat)" .
  show "check_disk_space disk_usage path required_mb =
        (required_mb * 1048576 < free_bytes stat, of_int (free_bytes stat) / 1048576)"
    by (simp only: check_disk_space_def Let_def s option.case q c)
next
  assume "disk_usage path = None"
  then show "check_disk_space disk_usage path required_mb = (True, 0)"
    by (simp add: check_disk_space_def)
qed

theorem check_disk_space_strict_witness:
  "hundred_mib_free ''/dl'' =
     Some \<lparr>total_bytes = 209715200, used_bytes = 104857600, free_bytes = 104857600\<rparr>
   \<and> check_disk_space hundred_mib_free ''/dl'' 99 = (True, 100)
   \<and> unreachable_disk ''/mnt/gone'' = None
   \<and> check_disk_space unreachable_disk ''/mnt/gone'' 100 = (True, 0)"
proof -
  let ?stat = "\<lparr>total_bytes = 209715200, used_bytes = 104857600, free_bytes = 104857600\<rparr>"
  have a: "hundred_mib_free ''/dl'' = Some ?stat \<and> 0 \<le> free_bytes ?stat
           \<and> free_bytes ?stat < 2 ^ 53"
    by (simp add: hundred_mib_free_def)
  have b: "unreachable_disk ''/mnt/gone'' = None" by (simp add: unreachable_disk_def)
  from check_disk_space_strict [of hundred_mib_free "''/dl''" ?stat 99] a
  have c: "check_disk_space hundred_mib_free ''/dl'' 99 = (True, 100)" by simp
  from check_disk_space_strict [of unreachable_disk "''/mnt/gone''" ?stat 100] b
  have d: "check_disk_space unreachable_disk ''/mnt/gone'' 100 = (True, 0)" by blast
  from a b c d show ?thesis by blast
qed

text \<open>
  Claim C8, as the specification states it, fails where exactly \<open>required_mb\<close> mebibytes
  are free: with 104857600 free bytes and \<open>required_mb = 100\<close> the result is false.
\<close>

theorem exactly_required_is_refused:
  "check_disk_space hundred_mib_free ''/dl'' 100 = (False, 100)"
  by code_simp

section \<open>The claims about the collectors\<close>

lemma progresses_append: "progresses (xs @ ys) = progresses xs @ progresses ys"
  by (induction xs rule: progresses.induct) simp_all

lemma video_info_item_progress:
  "progresses (emitted (video_info_item w n idx u s)) =
     progresses (emitted s) @
       (if is_valid_url (accepts_bracketed w) u then [collection_progress idx n] else [])"
  by (simp add: video_info_item_def Let_def progresses_append
      split: result.splits option.splits)

lemma video_info_loop_progress:
  "progresses (emitted (video_info_loop w n idx urls s)) =
     progresses (emitted s) @
       map (\<lambda>(i, u). collection_progress i n)
         (filter (\<lambda>(i, u). is_valid_url (accepts_bracketed w) u) (reached w idx urls))"
  by (induction urls arbitrary: idx s)
    (simp_all add: reached_def enumerate_simps video_info_item_progress)

text \<open>
  The rounding of the floating-point operations shows in the values: for the seventh of
  ten URLs the product is just below 63.
\<close>

lemma collection_progress_seven_of_ten:
  "collection_progress 7 10 = 62 \<and> \<lfloor>7 / 10 * (90 :: rat)\<rfloor> = 63"
  by code_simp

text \<open>
  Claim C9, as the code has it. The progress values of a run are, in order, the value
  \<open>int((idx / total) * 90)\<close> for every URL \<open>idx\<close> that the loop reaches and that passes
  \<open>is_valid_url\<close> (the floating-point product truncated toward zero; nothing is
  emitted for a URL that is rejected), and then 100. This holds whatever the library in
  use decides on a netloc with square brackets.
\<close>

theorem progress_is_truncated:
  "progresses (video_info_run w urls) =
     map (\<lambda>(i, u). collection_progress i (length urls))
       (filter (\<lambda>(i, u). is_valid_url (accepts_bracketed w) u) (reached w 1 urls)) @ [100]"
  by (simp add: video_info_run_def Let_def progresses_append video_info_loop_progress)

theorem progress_is_truncated_witness:
  "progresses (video_info_run info_world_ok seven_urls) = [12, 25, 38, 51, 64, 77, 90, 100]"
proof -
  have "map (\<lambda>(i, u). collection_progress i (length seven_urls))
          (filter (\<lambda>(i, u). is_valid_url (accepts_bracketed info_world_ok) u)
             (reached info_world_ok 1 seven_urls)) @ [100] =
        [12, 25, 38, 51, 64, 77, 90, 100]"
    by code_simp
  with progress_is_truncated [of info_world_ok seven_urls] show ?thesis by simp
qed

text \<open>
  Claim C9, as the specification states it, fails: for seven URLs the values emitted
  are 12, 25 and 38 where \<open>round(index / total * 90)\<close> is 13, 26 and 39.
\<close>

theorem progress_not_rounded:
  "progresses (video_info_run info_world_ok seven_urls) = [12, 25, 38, 51, 64, 77, 90, 100]
   \<and> map (\<lambda>i. spec_progress i (length seven_urls)) [1, 2, 3, 4, 5, 6, 7] =
       [13, 26, 39, 51, 64, 77, 90]"
  by code_simp

text \<open>
  Claim C6 is not met by the code. The flattened listing of \<open>ProfileFetchThread.run\<close>
  does not validate what it collects: on a Facebook page, an entry without \<open>url\<close> and
  \<open>webpage_url\<close> becomes a record with an empty \<open>url\<close>, which \<open>is_valid_url\<close>
  rejects, and an entry with an empty \<open>id\<close> and an empty \<open>title\<close> becomes a record with
  an empty \<open>id\<close> and an empty \<open>title\<close>. Neither URL has a square bracket, so the library's
  decision on bracketed hosts, \<open>accepts\<close>, plays no role.
\<close>

theorem listing_breaks_record_invariant:
  "detect_platform ''https://www.facebook.com/page/videos'' = Facebook
   \<and> map (\<lambda>v. (v_id v, v_title v, v_url v, is_valid_url accepts (v_url v)))
       (snd (snd (fetch_listing \<lparr>stop_at = None\<rparr> ''https://www.facebook.com/page/videos''
                    facebook_entries))) =
       [(''123'', ''Clip'', [], False),
        ([], [], ''https://www.facebook.com/page/videos/456'', True)]"
  by code_simp


end
